theory Spec2Isabelle
  imports Main
begin

section \<open>Strings as the scripts use them\<close>

text \<open>
  The scripts work on JavaScript strings. A string is modelled as a list of code units,
  each a \<^typ>\<open>char\<close>; the model covers the code units below 256, where a \<^typ>\<open>char\<close>
  is the code unit of the same number. The functions of this section are the string
  methods the scripts call, restricted to that range.
\<close>

text \<open>White space as \<^verbatim>\<open>String.prototype.trim\<close> sees it, among the code units below 256.\<close>

definition isWhiteSpace :: "char \<Rightarrow> bool" where
  "isWhiteSpace c =
     (c = CHR 0x09 \<or> c = CHR 0x0A \<or> c = CHR 0x0B \<or> c = CHR 0x0C \<or> c = CHR 0x0D
      \<or> c = CHR 0x20 \<or> c = CHR 0xA0)"

definition trim :: "string \<Rightarrow> string" where
  "trim s = rev (dropWhile isWhiteSpace (rev (dropWhile isWhiteSpace s)))"

text \<open>\<^verbatim>\<open>s.split("\n")\<close>: the empty string splits into one empty piece.\<close>

fun splitLines :: "string \<Rightarrow> string list" where
  "splitLines [] = [[]]"
| "splitLines (c # cs) =
     (if c = CHR 0x0A then [] # splitLines cs
      else (case splitLines cs of [] \<Rightarrow> [[c]] | l # ls \<Rightarrow> (c # l) # ls))"

text \<open>\<^verbatim>\<open>xs.filter(Boolean)\<close> on strings keeps the non-empty ones.\<close>

definition filterBoolean :: "string list \<Rightarrow> string list" where
  "filterBoolean xs = filter (\<lambda>l. l \<noteq> []) xs"

text \<open>\<^verbatim>\<open>s.startsWith(p)\<close> and \<^verbatim>\<open>s.includes(p)\<close>.\<close>

fun startsWith :: "string \<Rightarrow> string \<Rightarrow> bool" where
  "startsWith s [] = True"
| "startsWith [] (p # ps) = False"
| "startsWith (c # cs) (p # ps) = (c = p \<and> startsWith cs ps)"

fun includesStr :: "string \<Rightarrow> string \<Rightarrow> bool" where
  "includesStr [] p = (p = [])"
| "includesStr (c # cs) p = (startsWith (c # cs) p \<or> includesStr cs p)"

text \<open>\<^verbatim>\<open>s[0]\<close> is \<^verbatim>\<open>undefined\<close> on the empty string: \<^term>\<open>None\<close> here.\<close>

definition charAt0 :: "string \<Rightarrow> char option" where
  "charAt0 s = (case s of [] \<Rightarrow> None | c # _ \<Rightarrow> Some c)"

text \<open>
  A value used as a condition: \<^verbatim>\<open>undefined\<close> (\<^term>\<open>None\<close>) and the empty string
  are falsy, every other string is truthy.
\<close>

definition truthy :: "string option \<Rightarrow> bool" where
  "truthy v = (case v of None \<Rightarrow> False | Some s \<Rightarrow> s \<noteq> [])"

section \<open>The styling helpers\<close>

text \<open>
  Each script has a table \<^verbatim>\<open>styles\<close> of functions that wrap a text in a 256-colour
  escape sequence. A style is a tag here, \<open>colour\<close> gives its colour number and
  \<open>paint\<close> is the wrapping.
\<close>

datatype style =
  Title | Subtitle | Success | Error | Warning | Highlight | Muted | Progress | Command
  | Added | Modified | Deleted | Untracked

fun colour :: "style \<Rightarrow> string" where
  "colour Title = ''105''"
| "colour Subtitle = ''39''"
| "colour Success = ''82''"
| "colour Error = ''196''"
| "colour Warning = ''214''"
| "colour Highlight = ''226''"
| "colour Muted = ''245''"
| "colour Progress = ''33''"
| "colour Command = ''208''"
| "colour Added = ''46''"
| "colour Modified = ''214''"
| "colour Deleted = ''196''"
| "colour Untracked = ''39''"

definition paint :: "style \<Rightarrow> string \<Rightarrow> string" where
  "paint st text = CHR 0x1B # ''[38;5;'' @ colour st @ ''m'' @ text @ CHR 0x1B # ''[0m''"

section \<open>Stager: reading the working-tree status\<close>

text \<open>The table \<^verbatim>\<open>fileStatus\<close> of status letters.\<close>

definition MODIFIED :: string where "MODIFIED = ''M''"
definition ADDED :: string where "ADDED = ''A''"
definition DELETED :: string where "DELETED = ''D''"
definition RENAMED :: string where "RENAMED = ''R''"
definition UNTRACKED :: string where "UNTRACKED = ''?''"
definition UNMERGED :: string where "UNMERGED = ''U''"

text \<open>The object \<^verbatim>\<open>getChangedFiles\<close> builds for one status line.\<close>

record fileChange =
  status :: string
  displayStatus :: string
  filePath :: string
  color :: style
  isStaged :: bool

text \<open>
  The callback of \<^verbatim>\<open>map\<close> in \<^verbatim>\<open>getChangedFiles\<close>: the first two characters,
  trimmed, are the status; the text from index 3 on is the path. The \<^verbatim>\<open>if\<close> chain
  picks the display status and the colour; the staged flag reads the first character of
  the trimmed status.
\<close>

definition statusEntry :: "string \<Rightarrow> fileChange" where
  "statusEntry line =
     (let st = trim (take 2 line);
          path = drop 3 line;
          (display, col) =
            (if includesStr st MODIFIED then (''Modified'', Modified)
             else if includesStr st ADDED then (''Added'', Added)
             else if includesStr st DELETED then (''Deleted'', Deleted)
             else if includesStr st RENAMED then (''Renamed'', Modified)
             else if includesStr st UNTRACKED then (''Untracked'', Untracked)
             else if includesStr st UNMERGED then (''Unmerged'', Error)
             else ('''', Muted));
          staged = (charAt0 st \<noteq> Some CHR '' '' \<and> charAt0 st \<noteq> Some CHR ''?'')
      in \<lparr> status = st, displayStatus = display, filePath = path, color = col,
           isStaged = staged \<rparr>)"

text \<open>
  \<^verbatim>\<open>getChangedFiles\<close>. The argument is what \<^verbatim>\<open>git status --porcelain\<close> printed,
  or \<^term>\<open>None\<close> when running it threw; then the function returns the empty list.
\<close>

definition getChangedFiles :: "string option \<Rightarrow> fileChange list" where
  "getChangedFiles statusOutput =
     (case statusOutput of
        None \<Rightarrow> []
      | Some out \<Rightarrow> map statusEntry (filterBoolean (splitLines out)))"

section \<open>What a run of a tool does\<close>

text \<open>
  A run is recorded as the exit code of the process and the list of what it did, in
  order: a line written to the console (a fixed message as its plain text, without
  colour escape, pictograph and frame), a prompt shown to the user (its message), a
  command run through \<^verbatim>\<open>execSync\<close> that changes the repository, starts
  another tool or has text the user typed in its command line, and a process started
  through \<^verbatim>\<open>spawn\<close>. The banner a script writes when it is loaded is left out.
  Commands with a fixed command line that only read the repository are not events:
  what they print is an argument of the model, \<^term>\<open>None\<close> when the command failed.
  An answer to a prompt that has no cancel handler is \<^term>\<open>None\<close> when the user
  cancelled there: the library then leaves the answer \<^verbatim>\<open>undefined\<close>.
  A script that reaches its end without calling \<^verbatim>\<open>process.exit\<close> exits with code 0.
\<close>

datatype event = Out string | Ask string | ExecSync string | Spawn "string list"

record outcome =
  exitCode :: nat
  trace :: "event list"

definition isPrompt :: "event \<Rightarrow> bool" where
  "isPrompt e = (case e of Ask _ \<Rightarrow> True | _ \<Rightarrow> False)"

definition isCommand :: "event \<Rightarrow> bool" where
  "isCommand e = (case e of ExecSync _ \<Rightarrow> True | Spawn _ \<Rightarrow> True | _ \<Rightarrow> False)"

text \<open>A number inside a template literal: its decimal digits.\<close>

fun decimal :: "nat \<Rightarrow> string" where
  "decimal n =
     (if n < 10 then [char_of (48 + n)]
      else decimal (n div 10) @ [char_of (48 + n mod 10)])"

declare decimal.simps [simp del]

section \<open>Commit Composer\<close>

text \<open>\<^verbatim>\<open>getStagedFiles\<close>, on what \<^verbatim>\<open>git diff --cached --name-only\<close> printed.\<close>

definition getStagedFiles :: "string option \<Rightarrow> string list" where
  "getStagedFiles diffOutput =
     (case diffOutput of
        None \<Rightarrow> []
      | Some out \<Rightarrow> filterBoolean (splitLines out))"

text \<open>
  The branch pattern of \<^verbatim>\<open>getScopeSuggestion\<close>,
  \<^verbatim>\<open>/^(?:feature|feat|fix|docs|style|refactor|perf|test|build|ci|chore|revert)\/([^-]+)/\<close>.
  The alternatives are tried in the order written; after one of them the pattern needs a
  slash and at least one character that is not a hyphen, and the group takes as many
  such characters as there are. The result is the group, \<^term>\<open>None\<close> when the pattern
  does not match.
\<close>

definition branchPrefixes :: "string list" where
  "branchPrefixes =
     [''feature'', ''feat'', ''fix'', ''docs'', ''style'', ''refactor'', ''perf'', ''test'',
      ''build'', ''ci'', ''chore'', ''revert'']"

definition groupAfter :: "string \<Rightarrow> string \<Rightarrow> string" where
  "groupAfter p s = takeWhile (\<lambda>c. c \<noteq> CHR ''-'') (drop (length p + 1) s)"

definition branchMatch :: "string \<Rightarrow> string option" where
  "branchMatch s =
     (case List.find (\<lambda>p. startsWith s (p @ ''/'') \<and> groupAfter p s \<noteq> []) branchPrefixes of
        None \<Rightarrow> None
      | Some p \<Rightarrow> Some (groupAfter p s))"

text \<open>
  \<^verbatim>\<open>getScopeSuggestion\<close>, on what \<^verbatim>\<open>git branch --show-current\<close> printed; the
  empty string when the command threw or the branch does not match.
\<close>

definition getScopeSuggestion :: "string option \<Rightarrow> string" where
  "getScopeSuggestion branchOutput =
     (case branchOutput of
        None \<Rightarrow> ''''
      | Some out \<Rightarrow>
          (case branchMatch (trim out) of
             None \<Rightarrow> ''''
           | Some g \<Rightarrow> (if g \<noteq> [] then g else '''')))"

text \<open>
  \<^verbatim>\<open>c.toUpperCase()\<close> for a string of one code unit below 256, as the code units of
  the result: the letters a to z and the accented small letters move down by 32, the
  micro sign and the y with diaeresis have their capitals above 255, the sharp s becomes
  two letters, and every other code unit is unchanged.
\<close>

definition toUpperCase1 :: "char \<Rightarrow> nat list" where
  "toUpperCase1 c =
     (let n = (of_char c :: nat) in
      if 0x61 \<le> n \<and> n \<le> 0x7A then [n - 32]
      else if n = 0xB5 then [0x39C]
      else if n = 0xDF then [0x53, 0x53]
      else if 0xE0 \<le> n \<and> n \<le> 0xFE \<and> n \<noteq> 0xF7 then [n - 32]
      else if n = 0xFF then [0x178]
      else [n])"

definition endsWith :: "string \<Rightarrow> string \<Rightarrow> bool" where
  "endsWith s p = startsWith (rev s) (rev p)"

text \<open>
  The \<^verbatim>\<open>validate\<close> function of the subject prompt: \<^term>\<open>Inl\<close> carries the message
  shown when the input is refused, \<^term>\<open>Inr ()\<close> is \<^verbatim>\<open>true\<close>. The prompt asks again
  until the function returns \<^verbatim>\<open>true\<close>.
\<close>

definition validateSubject :: "string \<Rightarrow> string + unit" where
  "validateSubject v =
     (case v of
        [] \<Rightarrow> Inl ''Description is required''
      | c # _ \<Rightarrow>
          if [of_char c] \<noteq> toUpperCase1 c
          then Inl ''Description must start with uppercase letter''
          else if endsWith v ''.'' then Inl ''Description should not end with a period''
          else Inr ())"

text \<open>
  The answers of the prompt series. A question that is skipped leaves its answer
  \<^verbatim>\<open>undefined\<close>; the scope type is \<^verbatim>\<open>true\<close>, \<^verbatim>\<open>false\<close> or \<^verbatim>\<open>null\<close>.
\<close>

record response =
  type :: string
  useCommonScope :: "bool option"
  commonScope :: "string option"
  customScope :: "string option"
  subject :: string
  body :: string
  breaking :: bool
  breakingBody :: "string option"
  issues :: bool
  issuesBody :: "string option"

text \<open>
  The answers the series can return: a follow-up question is asked exactly when the
  question before it was answered the way its \<^verbatim>\<open>type\<close> function requires, and the
  subject has passed \<^verbatim>\<open>validate\<close>.
\<close>

definition fromPrompts :: "response \<Rightarrow> bool" where
  "fromPrompts r =
     ((commonScope r \<noteq> None) = (useCommonScope r = Some True)
      \<and> (customScope r \<noteq> None) = (useCommonScope r = Some False)
      \<and> validateSubject (subject r) = Inr ()
      \<and> (breakingBody r \<noteq> None) = breaking r
      \<and> (issuesBody r \<noteq> None) = issues r)"

text \<open>The messages of the questions the series asked for given answers, in order.\<close>

definition asked :: "response \<Rightarrow> string list" where
  "asked r =
     [''Select the type of change:'', ''Select a scope type:'']
     @ (if useCommonScope r = Some True then [''Select scope:''] else [])
     @ (if useCommonScope r = Some False then [''Enter custom scope:''] else [])
     @ [''Enter a short description:'', ''Provide a longer description (optional):'',
        ''Does this change contain breaking changes?'']
     @ (if breaking r then [''Describe the breaking changes:''] else [])
     @ [''Does this change affect any open issues?'']
     @ (if issues r
        then [''Add issue references (e.g., '' @ [CHR 0x22] @ ''Fixes #123'' @ [CHR 0x22] @ ''):'']
        else [])"

text \<open>
  The scope after \<^verbatim>\<open>// Handle scope selection\<close>: the second argument is the answer
  to the extra question asked when the common scope chosen is \<^verbatim>\<open>other\<close>.
\<close>

definition scopeOf :: "response \<Rightarrow> string option \<Rightarrow> string option" where
  "scopeOf r otherScope =
     (if useCommonScope r = Some True
      then (if commonScope r = Some ''other'' then otherScope else commonScope r)
      else if useCommonScope r = Some False then customScope r
      else Some '''')"

definition scopeText :: "string option \<Rightarrow> string" where
  "scopeText scope =
     (case scope of
        None \<Rightarrow> ''''
      | Some s \<Rightarrow> (if s \<noteq> [] then ''('' @ s @ '')'' else ''''))"

text \<open>The message built under \<^verbatim>\<open>// Build commit message\<close>.\<close>

definition commitMessage :: "response \<Rightarrow> string option \<Rightarrow> string" where
  "commitMessage r otherScope =
     (let m0 = type r @ scopeText (scopeOf r otherScope) @ '': '' @ subject r;
          m1 = (if body r \<noteq> [] then m0 @ ''\<newline>\<newline>'' @ body r else m0);
          m2 = (if breaking r
                then m1 @ ''\<newline>\<newline>BREAKING CHANGE: ''
                     @ (case breakingBody r of
                          None \<Rightarrow> ''Breaking changes introduced''
                        | Some b \<Rightarrow> (if b \<noteq> [] then b else ''Breaking changes introduced''))
                else m1)
      in (case issuesBody r of
            None \<Rightarrow> m2
          | Some i \<Rightarrow> (if issues r \<and> i \<noteq> [] then m2 @ ''\<newline>\<newline>'' @ i else m2)))"

text \<open>\<^verbatim>\<open>commitMessage.replace(/"/g, '\\"')\<close>: a backslash before every double quote.\<close>

definition escapeQuotes :: "string \<Rightarrow> string" where
  "escapeQuotes s = concat (map (\<lambda>c. if c = CHR 0x22 then [CHR 0x5C, CHR 0x22] else [c]) s)"

text \<open>
  \<^verbatim>\<open>main\<close> of the Commit Composer. Arguments: what the two git commands printed, the
  answers of the prompt series (\<^term>\<open>None\<close> when the user cancelled in it, which runs
  the cancel handler), the answer to the extra scope question, the answer to the final
  confirmation, and whether \<^verbatim>\<open>git commit\<close> succeeded.
\<close>

definition commitMain ::
  "string option \<Rightarrow> string option \<Rightarrow> response option \<Rightarrow> string option \<Rightarrow> bool option
   \<Rightarrow> bool \<Rightarrow> outcome" where
  "commitMain diffOutput branchOutput answers otherScope confirmCommit commitOk =
     (let stagedFiles = getStagedFiles diffOutput;
          t0 = (if diffOutput = None then [Out ''Error checking for staged files:''] else [])
      in
      if length stagedFiles = 0
      then \<lparr> exitCode = 1,
             trace = t0 @ [Out ''No staged files found. Please stage your changes with:'',
                           Out ''  git add <files>''] \<rparr>
      else
        let t1 = t0 @ [Out ''Files to be committed:'']
                 @ map (\<lambda>file. Out (''  - '' @ file)) stagedFiles
        in
        (case answers of
           None \<Rightarrow>
             \<lparr> exitCode = 1,
               trace = t1 @ [Ask ''Select the type of change:'',
                             Out ''Commit creation canceled''] \<rparr>
         | Some r \<Rightarrow>
             let t2 = t1 @ map Ask (asked r)
                      @ (if useCommonScope r = Some True \<and> commonScope r = Some ''other''
                         then [Ask ''Enter custom scope:''] else []);
                 message = commitMessage r otherScope;
                 t3 = t2 @ [Out ''Generated Commit Message:'', Out message,
                            Ask ''Create commit with this message?'']
             in
             if confirmCommit = Some True
             then
               let t4 = t3 @ [ExecSync (''git commit -m '' @ [CHR 0x22] @ escapeQuotes message
                                        @ [CHR 0x22])]
               in if commitOk
                  then \<lparr> exitCode = 0, trace = t4 @ [Out ''Commit created successfully!''] \<rparr>
                  else \<lparr> exitCode = 1, trace = t4 @ [Out ''Failed to create commit:''] \<rparr>
             else \<lparr> exitCode = 1, trace = t3 @ [Out ''Commit cancelled''] \<rparr>))"

section \<open>Pusher\<close>

text \<open>
  \<^verbatim>\<open>getCurrentBranch\<close> of the Pusher: \<^verbatim>\<open>null\<close> (\<^term>\<open>None\<close>) when
  \<^verbatim>\<open>git branch --show-current\<close> threw, its trimmed output otherwise.
\<close>

definition getCurrentBranch :: "string option \<Rightarrow> string option" where
  "getCurrentBranch branchOutput =
     (case branchOutput of None \<Rightarrow> None | Some out \<Rightarrow> Some (trim out))"

text \<open>\<^verbatim>\<open>getRemoteBranches\<close>, on what \<^verbatim>\<open>git remote\<close> printed.\<close>

definition getRemoteBranches :: "string option \<Rightarrow> string list" where
  "getRemoteBranches remoteOutput =
     (case remoteOutput of
        None \<Rightarrow> [''origin'']
      | Some out \<Rightarrow> filterBoolean (splitLines out))"

text \<open>
  \<^verbatim>\<open>getUnpushedCommits\<close>, on what
  \<^verbatim>\<open>git log <remote>/<branch>..<branch> --oneline\<close> printed. When the command threw
  the function returns the one-element list \<^verbatim>\<open>["new-branch"]\<close>.
\<close>

definition getUnpushedCommits :: "string option \<Rightarrow> string list" where
  "getUnpushedCommits logOutput =
     (case logOutput of
        None \<Rightarrow> [''new-branch'']
      | Some out \<Rightarrow> (let output = trim out in if output \<noteq> [] then splitLines output else []))"

text \<open>
  The last pattern of \<^verbatim>\<open>formatGitOutput\<close>, \<^verbatim>\<open>/[a-f0-9]+\.\.[a-f0-9]+ +/\<close>,
  searched anywhere in the line: a hexadecimal digit, two dots, one or more hexadecimal
  digits and a space.
\<close>

definition isHexDigit :: "char \<Rightarrow> bool" where
  "isHexDigit c =
     (let n = (of_char c :: nat)
      in (0x61 \<le> n \<and> n \<le> 0x66) \<or> (0x30 \<le> n \<and> n \<le> 0x39))"

definition hexThenSpace :: "string \<Rightarrow> bool" where
  "hexThenSpace s =
     (takeWhile isHexDigit s \<noteq> []
      \<and> (case dropWhile isHexDigit s of [] \<Rightarrow> False | c # _ \<Rightarrow> c = CHR '' ''))"

fun refUpdate :: "string \<Rightarrow> bool" where
  "refUpdate [] = False"
| "refUpdate (c # cs) =
     ((isHexDigit c \<and> startsWith cs ''..'' \<and> hexThenSpace (drop 2 cs)) \<or> refUpdate cs)"

text \<open>The body of the loop of \<^verbatim>\<open>formatGitOutput\<close>: what one line adds.\<close>

definition formatLine :: "string \<Rightarrow> string" where
  "formatLine line =
     (if includesStr line ''Enumerating objects'' then paint Highlight line @ ''\<newline>''
      else if includesStr line ''Counting objects'' then paint Progress line @ ''\<newline>''
      else if includesStr line ''Compressing objects'' then paint Progress line @ ''\<newline>''
      else if includesStr line ''Writing objects'' then paint Progress line @ ''\<newline>''
      else if includesStr line ''Total'' then paint Highlight line @ ''\<newline>''
      else if includesStr line ''remote:'' then paint Muted line @ ''\<newline>''
      else if refUpdate line then paint Success line @ ''\<newline>''
      else if trim line \<noteq> [] then line @ ''\<newline>''
      else '''')"

definition formatGitOutput :: "string \<Rightarrow> string" where
  "formatGitOutput output = concat (map formatLine (splitLines output))"

record pushResponse =
  remote :: string
  branch :: string
  forcePush :: bool

text \<open>
  The lines written for the commits to be pushed: the first five, then one line that
  counts the rest.
\<close>

definition commitLines :: "string list \<Rightarrow> event list" where
  "commitLines unpushedCommits =
     concat (map (\<lambda>(i, commit).
                    if i < 5 then [Out (''  - '' @ commit)]
                    else if i = 5
                    then [Out (''  - ... and '' @ decimal (length unpushedCommits - 5)
                               @ '' more commits'')]
                    else [])
                 (enumerate 0 unpushedCommits))"

text \<open>
  The handler of the \<^verbatim>\<open>close\<close> event of the push process, on the exit code and the
  output captured from both streams: the lines it writes. The handler does not call
  \<^verbatim>\<open>process.exit\<close>.
\<close>

definition onClose :: "nat \<Rightarrow> string \<Rightarrow> event list" where
  "onClose code output =
     (if code = 0
      then [Out ''Push successful!'', Out (formatGitOutput output),
            Out ''Changes pushed successfully to remote!'']
      else [Out ''Push failed!'', Out output,
            Out ''Try resolving the issues and pushing again.''])"

text \<open>
  The part of \<^verbatim>\<open>main\<close> of the Pusher from \<^verbatim>\<open>// Build push command\<close> on:
  the command is shown, the user confirms, the push process runs and the handler of its
  \<^verbatim>\<open>close\<close> event writes the result. Arguments: the current branch, the answers of
  the prompt series, the trace so far, the answer to the confirmation, and the exit code
  and the captured output of the push process.
\<close>

definition executePush ::
  "string \<Rightarrow> pushResponse \<Rightarrow> event list \<Rightarrow> bool option \<Rightarrow> nat \<Rightarrow> string \<Rightarrow> outcome" where
  "executePush currentBranch r t confirmPush code output =
     (let force = (if forcePush r then ''--force '' else '''');
          pushCommand = ''git push '' @ force @ remote r @ '' '' @ currentBranch
                        @ '':'' @ branch r;
          t1 = t @ [Out ''Executing:'', Out (''  '' @ pushCommand),
                    Ask (''Push '' @ currentBranch @ '' to '' @ remote r @ ''/''
                         @ branch r @ ''?''
                         @ (if forcePush r then '' (FORCE PUSH)'' else ''''))]
      in
      if confirmPush \<noteq> Some True
      then \<lparr> exitCode = 0, trace = t1 @ [Out ''Push canceled''] \<rparr>
      else
        \<lparr> exitCode = 0,
          trace = t1 @ [Spawn ([''git'', ''push'']
                              @ (if forcePush r then [''--force''] else [])
                              @ [remote r, currentBranch @ '':'' @ branch r])]
                  @ onClose code output \<rparr>)"

text \<open>
  \<^verbatim>\<open>main\<close> of the Pusher. Arguments: what \<^verbatim>\<open>git branch --show-current\<close> and
  \<^verbatim>\<open>git remote\<close> printed, the answers of the prompt series (\<^term>\<open>None\<close> when the
  user cancelled in it, which runs the cancel handler), what \<^verbatim>\<open>git log\<close> printed,
  the answers to the two confirmations, and the exit code and the captured output of the
  push process. The spinner is not part of the model.
\<close>

definition pushMain ::
  "string option \<Rightarrow> string option \<Rightarrow> pushResponse option \<Rightarrow> string option \<Rightarrow> bool option
   \<Rightarrow> bool option \<Rightarrow> nat \<Rightarrow> string \<Rightarrow> outcome" where
  "pushMain branchOutput remoteOutput answers logOutput confirmAnyway confirmPush code output =
     (case getCurrentBranch branchOutput of
        None \<Rightarrow>
          \<lparr> exitCode = 1,
            trace = [Out ''Error getting current branch:'',
                     Out ''Not in a git repository or no branches exist''] \<rparr>
      | Some currentBranch \<Rightarrow>
          if currentBranch = []
          then \<lparr> exitCode = 1, trace = [Out ''Not in a git repository or no branches exist''] \<rparr>
          else
            let t0 = (if remoteOutput = None then [Out ''Error getting remotes:''] else [])
            in
            (case answers of
               None \<Rightarrow>
                 \<lparr> exitCode = 1,
                   trace = t0 @ [Ask ''Select remote to push to:'', Out ''Push canceled''] \<rparr>
             | Some r \<Rightarrow>
                 let t1 = t0 @ [Ask ''Select remote to push to:'', Ask ''Branch to push to remote:'',
                                Ask ''Use force push? (--force)''];
                     unpushedCommits = getUnpushedCommits logOutput
                 in
                 if length unpushedCommits > 0 \<and> hd unpushedCommits \<noteq> ''new-branch''
                 then executePush currentBranch r
                        (t1 @ [Out ''Commits to be pushed:''] @ commitLines unpushedCommits)
                        confirmPush code output
                 else if unpushedCommits \<noteq> [] \<and> hd unpushedCommits = ''new-branch''
                 then executePush currentBranch r
                        (t1 @ [Out ''This appears to be a new branch on the remote''])
                        confirmPush code output
                 else
                   let t2 = t1 @ [Out ''No unpushed commits detected'',
                                  Ask ''Continue with push anyway?'']
                   in
                   if confirmAnyway \<noteq> Some True
                   then \<lparr> exitCode = 0, trace = t2 @ [Out ''Push canceled''] \<rparr>
                   else executePush currentBranch r t2 confirmPush code output))"

section \<open>Stager\<close>




text \<open>
  Everything the Stager reads while it runs: what the git commands printed (\<^term>\<open>None\<close>
  when one threw), the user's answers (\<^term>\<open>None\<close> when the user cancelled at that
  prompt), and whether \<^verbatim>\<open>git add\<close> and the commit wizard it may start succeeded.
\<close>

record stagerInput =
  branchOutput :: "string option"
  statusOutput :: "string option"
  selectionMode :: "string option"
  selectedFiles :: "string list option"
  selectedExtensions :: "string list option"
  pattern :: "string option"
  grepOutput :: "string option"
  confirmStage :: "bool option"
  addOk :: bool
  statusAfter :: "string option"
  proceedToCommit :: "bool option"
  wizardOk :: bool





section \<open>Notions of the specification\<close>

text \<open>
  The precedence of the six status codes as the specification lists it, and the code a
  status gets when the first code of the list whose letter occurs in it wins; a status
  with none of the letters gets the empty display status.
\<close>

definition precedence :: "(string \<times> string) list" where
  "precedence =
     [(MODIFIED, ''Modified''), (ADDED, ''Added''), (DELETED, ''Deleted''),
      (RENAMED, ''Renamed''), (UNTRACKED, ''Untracked''), (UNMERGED, ''Unmerged'')]"

definition firstMatch :: "string \<Rightarrow> string" where
  "firstMatch st =
     (case List.find (\<lambda>(letter, name). includesStr st letter) precedence of
        None \<Rightarrow> ''''
      | Some (letter, name) \<Rightarrow> name)"

text \<open>The capital and the small letters among the code units below 256.\<close>

definition isUpperCaseLetter :: "char \<Rightarrow> bool" where
  "isUpperCaseLetter c =
     (let n = (of_char c :: nat)
      in (0x41 \<le> n \<and> n \<le> 0x5A) \<or> (0xC0 \<le> n \<and> n \<le> 0xDE \<and> n \<noteq> 0xD7))"

definition isLowerCaseLetter :: "char \<Rightarrow> bool" where
  "isLowerCaseLetter c =
     (let n = (of_char c :: nat)
      in (0x61 \<le> n \<and> n \<le> 0x7A) \<or> n = 0xB5
         \<or> (0xDF \<le> n \<and> n \<le> 0xFF \<and> n \<noteq> 0xF7))"

text \<open>
  A run changes the repository, or starts a tool that may, when it runs a command:
  \<^verbatim>\<open>git add\<close>, \<^verbatim>\<open>git commit\<close>, \<^verbatim>\<open>git push\<close> or the commit wizard.
\<close>

definition mutates :: "outcome \<Rightarrow> bool" where
  "mutates res = list_ex isCommand (trace res)"



section \<open>Facts about the string functions\<close>

lemma startsWith_iff: "startsWith s p \<longleftrightarrow> (\<exists>r. s = p @ r)"
  by (induction s p rule: startsWith.induct) auto

lemma includesStr_single: "includesStr s [c] \<longleftrightarrow> c \<in> set s"
  by (induction s) auto

lemma endsWith_append: "endsWith (a @ b) b"
  by (induction b arbitrary: a rule: rev_induct) (simp_all add: endsWith_def)

lemma of_char_less_256: "(of_char c :: nat) < 256"
  by (cases c) (simp add: of_char_def horner_sum_eq_sum)

text \<open>What \<^const>\<open>trim\<close> returns does not start with white space.\<close>

lemma trim_head:
  assumes "trim s = c # cs"
  shows "\<not> isWhiteSpace c"
proof -
  let ?x = "dropWhile isWhiteSpace s"
  from assms have "dropWhile isWhiteSpace (rev ?x) = rev (c # cs)"
    by (metis rev_rev_ident trim_def)
  then have "rev ?x = takeWhile isWhiteSpace (rev ?x) @ rev cs @ [c]"
    by (metis rev.simps(2) takeWhile_dropWhile_id)
  then have "?x = c # cs @ rev (takeWhile isWhiteSpace (rev ?x))"
    by (metis append_Cons rev.simps(2) rev_append rev_swap)
  then have "hd ?x = c" and "?x \<noteq> []"
    by (metis list.sel(1), metis list.distinct(1))
  then show ?thesis
    using hd_dropWhile by metis
qed

section \<open>Stager: status lines\<close>

lemmas letters = MODIFIED_def ADDED_def DELETED_def RENAMED_def UNTRACKED_def UNMERGED_def

text \<open>
  The trimmed status never starts with a blank, so the first test of the staged flag is
  always true: the flag only says that the trimmed status does not start with a
  question mark.
\<close>

lemma blank_test_always_true: "charAt0 (trim s) \<noteq> Some CHR '' ''"
  using trim_head [of s] by (cases "trim s") (auto simp add: charAt0_def isWhiteSpace_def)

lemma isStaged_after_trim:
  "isStaged (statusEntry line) = (charAt0 (trim (take 2 line)) \<noteq> Some CHR ''?'')"
  by (simp add: statusEntry_def Let_def blank_test_always_true split: prod.splits)

text \<open>
  Claim C1: a status line whose first character is a blank yields a file change that is
  not staged. The code reads the first character after trimming the two status
  characters; on the line \<^verbatim>\<open>" M file"\<close>, an unstaged change of the working tree, the
  status is \<^verbatim>\<open>"M"\<close> and the file is reported as staged.
\<close>

theorem blank_first_character_reported_staged:
  "map (\<lambda>f. (status f, isStaged f)) (getChangedFiles (Some '' M file\<newline>'')) = [(''M'', True)]"
  by (simp add: getChangedFiles_def filterBoolean_def statusEntry_def trim_def isWhiteSpace_def
      charAt0_def Let_def letters)

text \<open>
  Claim C5, as stated: every status line is classified into one of the six status codes.
  A line for a type change, \<^verbatim>\<open>"T  src/a.ts"\<close>, gets none of them.
\<close>

theorem type_change_line_unclassified:
  "displayStatus (statusEntry ''T  src/a.ts'') \<notin> set (map snd precedence)"
  by (simp add: statusEntry_def trim_def isWhiteSpace_def precedence_def charAt0_def Let_def
      letters)

text \<open>
  Claim C5, amended: the display status of a status line is a function of its trimmed
  two-character status; it is the first code in the order Modified, Added, Deleted,
  Renamed, Untracked, Unmerged whose letter occurs in the status, one of the six codes
  exactly when the status has one of the letters M, A, D, R, ?, U, and empty otherwise.
  The lines \<^verbatim>\<open>"M  src/a.ts"\<close> and \<^verbatim>\<open>"?? src/b.ts"\<close> give Modified, staged, and
  Untracked, not staged, with the paths \<^verbatim>\<open>src/a.ts\<close> and \<^verbatim>\<open>src/b.ts\<close>.
\<close>

theorem classification_first_match:
  "displayStatus (statusEntry line) = firstMatch (trim (take 2 line))
   \<and> (displayStatus (statusEntry line) \<in> set (map snd precedence))
       = (set (trim (take 2 line)) \<inter> set ''MADR?U'' \<noteq> {})
   \<and> (displayStatus (statusEntry line) \<notin> set (map snd precedence))
       = (displayStatus (statusEntry line) = '''')
   \<and> map (\<lambda>f. (filePath f, displayStatus f, isStaged f))
        (getChangedFiles (Some ''M  src/a.ts\<newline>?? src/b.ts''))
      = [(''src/a.ts'', ''Modified'', True), (''src/b.ts'', ''Untracked'', False)]"
proof -
  have first: "displayStatus (statusEntry line) = firstMatch (trim (take 2 line))"
    by (simp add: statusEntry_def firstMatch_def precedence_def Let_def)
  have known: "(displayStatus (statusEntry line) \<in> set (map snd precedence))
       = (set (trim (take 2 line)) \<inter> set ''MADR?U'' \<noteq> {})"
    by (auto simp add: statusEntry_def precedence_def Let_def letters includesStr_single)
  have other: "(displayStatus (statusEntry line) \<notin> set (map snd precedence))
       = (displayStatus (statusEntry line) = '''')"
    by (auto simp add: statusEntry_def precedence_def Let_def)
  have example: "map (\<lambda>f. (filePath f, displayStatus f, isStaged f))
        (getChangedFiles (Some ''M  src/a.ts\<newline>?? src/b.ts''))
      = [(''src/a.ts'', ''Modified'', True), (''src/b.ts'', ''Untracked'', False)]"
    by (simp add: getChangedFiles_def filterBoolean_def statusEntry_def trim_def
        isWhiteSpace_def charAt0_def Let_def letters)
  from first known other example show ?thesis by blast
qed

text \<open>
  The amended claim C5 on a line that carries two letters: \<^verbatim>\<open>"AM src/c.ts"\<close> is added
  in the index and modified in the working tree, and Modified wins.
\<close>

theorem classification_first_match_witness:
  "displayStatus (statusEntry ''AM src/c.ts'') = ''Modified''
   \<and> displayStatus (statusEntry ''AM src/c.ts'') \<in> set (map snd precedence)"
  using classification_first_match [of "''AM src/c.ts''"]
  by (simp add: firstMatch_def precedence_def trim_def isWhiteSpace_def letters)

section \<open>Commit Composer: the subject and the scope suggestion\<close>

text \<open>Upper-casing changes exactly the small letters.\<close>

lemma changes_iff_lower: "[of_char c] \<noteq> toUpperCase1 c \<longleftrightarrow> isLowerCaseLetter c"
  using of_char_less_256 [of c]
  by (auto simp add: toUpperCase1_def isLowerCaseLetter_def Let_def)

text \<open>
  Claim C7, as stated: a subject is rejected exactly when it is empty, or its first
  character is not uppercase, or it ends with a full stop. The subject \<^verbatim>\<open>"1 fix"\<close>
  starts with a digit, which is not an uppercase character, and is accepted.
\<close>

theorem digit_first_subject_accepted:
  "\<not> (validateSubject ''1 fix'' \<noteq> Inr () \<longleftrightarrow>
        (''1 fix'' = [] \<or> \<not> isUpperCaseLetter (hd ''1 fix'') \<or> endsWith ''1 fix'' ''.''))"
  by (simp add: validateSubject_def toUpperCase1_def isUpperCaseLetter_def endsWith_def)

text \<open>
  Claim C7, amended: the validation rejects a subject exactly when it is empty, or its
  first character is a small letter (the characters that upper-casing changes; a
  character without case, such as a digit, passes), or it ends with a full stop; the
  subject \<^verbatim>\<open>"add login"\<close> is rejected for its first letter.
\<close>

theorem subject_rejected_iff:
  "(validateSubject v \<noteq> Inr ())
     = (case v of [] \<Rightarrow> True | c # _ \<Rightarrow> isLowerCaseLetter c \<or> endsWith v ''.'')
   \<and> validateSubject ''add login'' = Inl ''Description must start with uppercase letter''"
proof -
  have "(validateSubject v \<noteq> Inr ())
     = (case v of [] \<Rightarrow> True | c # _ \<Rightarrow> isLowerCaseLetter c \<or> endsWith v ''.'')"
    by (cases v) (auto simp add: validateSubject_def changes_iff_lower)
  moreover have
    "validateSubject ''add login'' = Inl ''Description must start with uppercase letter''"
    by (simp add: validateSubject_def toUpperCase1_def)
  ultimately show ?thesis by blast
qed

text \<open>
  The amended claim C7 on three subjects: one that ends with a full stop, one that starts
  with a small letter, and one that passes.
\<close>

theorem subject_rejected_iff_witness:
  "validateSubject ''Add login.'' \<noteq> Inr ()
   \<and> validateSubject ''add login'' \<noteq> Inr ()
   \<and> validateSubject ''Add login'' = Inr ()"
  using subject_rejected_iff [of "''Add login.''"] subject_rejected_iff [of "''add login''"]
    subject_rejected_iff [of "''Add login''"]
  by (simp add: isLowerCaseLetter_def endsWith_def)

text \<open>No alternative of the branch pattern contains a slash.\<close>

lemma no_slash: "p \<in> set branchPrefixes \<Longrightarrow> CHR ''/'' \<notin> set p"
  by (auto simp add: branchPrefixes_def)

lemma same_prefix:
  "c \<notin> set p \<Longrightarrow> c \<notin> set q \<Longrightarrow> p @ c # x = q @ c # y \<Longrightarrow> p = q"
proof (induction p arbitrary: q)
  case Nil
  then show ?case by (cases q) auto
next
  case (Cons a p)
  then show ?case by (cases q) auto
qed

text \<open>
  A branch that is an alternative, a slash, a non-empty segment without hyphen, and then
  nothing or a hyphen: the pattern matches and the group is the segment.
\<close>

lemma branchMatch_hit:
  assumes "p \<in> set branchPrefixes" and "seg \<noteq> []" and "CHR ''-'' \<notin> set seg"
    and "rest = [] \<or> hd rest = CHR ''-''"
  shows "branchMatch (p @ ''/'' @ seg @ rest) = Some seg"
proof -
  let ?b = "p @ ''/'' @ seg @ rest"
  let ?P = "\<lambda>q. startsWith ?b (q @ ''/'') \<and> groupAfter q ?b \<noteq> []"
  have "takeWhile (\<lambda>c. c \<noteq> CHR ''-'') (seg @ rest) = seg"
    using assms(3,4) by (cases rest) (auto simp add: takeWhile_append)
  then have g: "groupAfter p ?b = seg"
    by (simp add: groupAfter_def)
  have Pp: "?P p"
    using g assms(2) by (simp add: startsWith_iff)
  have uniq: "q = p" if "q \<in> set branchPrefixes" and "?P q" for q
  proof -
    from that(2) obtain r where "p @ CHR ''/'' # seg @ rest = q @ CHR ''/'' # r"
      by (auto simp add: startsWith_iff)
    then show ?thesis
      using same_prefix [of "CHR ''/''" q p r "seg @ rest"]
        no_slash [OF that(1)] no_slash [OF assms(1)]
      by auto
  qed
  obtain y where y: "List.find ?P branchPrefixes = Some y"
    using Pp assms(1) by (cases "List.find ?P branchPrefixes") (auto simp add: find_None_iff)
  then have "y \<in> set branchPrefixes" and "?P y"
    by (auto simp add: find_Some_iff)
  then have "y = p"
    using uniq by blast
  then show ?thesis
    using y g by (simp add: branchMatch_def)
qed

text \<open>A branch that has no such form: the pattern does not match.\<close>

lemma branchMatch_miss:
  assumes "\<not> (\<exists>p \<in> set branchPrefixes. \<exists>c rest. b = p @ ''/'' @ c # rest \<and> c \<noteq> CHR ''-'')"
  shows "branchMatch b = None"
proof -
  have "\<not> (startsWith b (q @ ''/'') \<and> groupAfter q b \<noteq> [])"
    if "q \<in> set branchPrefixes" for q
  proof
    assume a: "startsWith b (q @ ''/'') \<and> groupAfter q b \<noteq> []"
    then obtain r where r: "b = q @ ''/'' @ r"
      by (auto simp add: startsWith_iff)
    with a have "takeWhile (\<lambda>c. c \<noteq> CHR ''-'') r \<noteq> []"
      by (simp add: groupAfter_def)
    then obtain c rest where "r = c # rest" and "c \<noteq> CHR ''-''"
      by (cases r) (auto split: if_splits)
    with r that assms show False by blast
  qed
  then have
    "List.find (\<lambda>q. startsWith b (q @ ''/'') \<and> groupAfter q b \<noteq> []) branchPrefixes = None"
    by (simp add: find_None_iff)
  then show ?thesis
    by (simp add: branchMatch_def)
qed

text \<open>
  Claim C9: the scope suggestion is a function of the branch name that
  \<^verbatim>\<open>git branch --show-current\<close> printed, trimmed. When the branch is one of the twelve
  prefixes feature, feat, fix, docs, style, refactor, perf, test, build, ci, chore,
  revert, then a slash, and then a non-empty segment that runs to the first hyphen or to
  the end, the suggestion is that segment; when the branch is not one of the twelve
  prefixes followed by a slash and a character other than a hyphen, the suggestion is
  empty; it is empty too when the command failed.
\<close>

theorem scope_suggestion_from_branch:
  "(p \<in> set [''feature'', ''feat'', ''fix'', ''docs'', ''style'', ''refactor'', ''perf'',
              ''test'', ''build'', ''ci'', ''chore'', ''revert'']
      \<and> seg \<noteq> [] \<and> CHR ''-'' \<notin> set seg
      \<and> (rest = [] \<or> hd rest = CHR ''-'') \<and> trim out = p @ ''/'' @ seg @ rest
     \<longrightarrow> getScopeSuggestion (Some out) = seg)
   \<and> (\<not> (\<exists>q \<in> set [''feature'', ''feat'', ''fix'', ''docs'', ''style'', ''refactor'',
                        ''perf'', ''test'', ''build'', ''ci'', ''chore'', ''revert''].
            \<exists>c cs. trim out = q @ ''/'' @ c # cs \<and> c \<noteq> CHR ''-'')
     \<longrightarrow> getScopeSuggestion (Some out) = '''')
   \<and> getScopeSuggestion None = ''''"
proof -
  have twelve: "[''feature'', ''feat'', ''fix'', ''docs'', ''style'', ''refactor'', ''perf'',
      ''test'', ''build'', ''ci'', ''chore'', ''revert''] = branchPrefixes"
    by (simp add: branchPrefixes_def)
  show ?thesis
    unfolding twelve
  proof (intro conjI impI)
    assume "p \<in> set branchPrefixes \<and> seg \<noteq> [] \<and> CHR ''-'' \<notin> set seg
        \<and> (rest = [] \<or> hd rest = CHR ''-'') \<and> trim out = p @ ''/'' @ seg @ rest"
    then show "getScopeSuggestion (Some out) = seg"
      using branchMatch_hit [of p seg rest] by (simp add: getScopeSuggestion_def)
  next
    assume "\<not> (\<exists>q \<in> set branchPrefixes. \<exists>c cs. trim out = q @ ''/'' @ c # cs
        \<and> c \<noteq> CHR ''-'')"
    then show "getScopeSuggestion (Some out) = ''''"
      using branchMatch_miss [of "trim out"] by (simp add: getScopeSuggestion_def)
  next
    show "getScopeSuggestion None = ''''"
      by (simp add: getScopeSuggestion_def)
  qed
qed

text \<open>
  Claim C9 on a branch for each of the twelve prefixes, on a branch whose segment runs
  to the end, and on three branches that do not match: no prefix, a prefix that is not
  among the twelve, and a hyphen right after the slash.
\<close>

theorem scope_suggestion_from_branch_witness:
  "getScopeSuggestion (Some ''feature/auth-login\<newline>'') = ''auth''
   \<and> getScopeSuggestion (Some ''feat/auth-login\<newline>'') = ''auth''
   \<and> getScopeSuggestion (Some ''fix/auth-login\<newline>'') = ''auth''
   \<and> getScopeSuggestion (Some ''docs/auth-login\<newline>'') = ''auth''
   \<and> getScopeSuggestion (Some ''style/auth-login\<newline>'') = ''auth''
   \<and> getScopeSuggestion (Some ''refactor/auth-login\<newline>'') = ''auth''
   \<and> getScopeSuggestion (Some ''perf/auth-login\<newline>'') = ''auth''
   \<and> getScopeSuggestion (Some ''test/auth-login\<newline>'') = ''auth''
   \<and> getScopeSuggestion (Some ''build/auth-login\<newline>'') = ''auth''
   \<and> getScopeSuggestion (Some ''ci/auth-login\<newline>'') = ''auth''
   \<and> getScopeSuggestion (Some ''chore/auth-login\<newline>'') = ''auth''
   \<and> getScopeSuggestion (Some ''revert/auth-login\<newline>'') = ''auth''
   \<and> getScopeSuggestion (Some ''fix/login\<newline>'') = ''login''
   \<and> getScopeSuggestion (Some ''main\<newline>'') = ''''
   \<and> getScopeSuggestion (Some ''hotfix/auth-login\<newline>'') = ''''
   \<and> getScopeSuggestion (Some ''fix/-auth\<newline>'') = ''''"
proof -
  have hit: "getScopeSuggestion (Some (p @ ''/'' @ seg @ rest @ ''\<newline>'')) = seg"
    if "p \<in> set [''feature'', ''feat'', ''fix'', ''docs'', ''style'', ''refactor'', ''perf'',
              ''test'', ''build'', ''ci'', ''chore'', ''revert'']"
      and "seg \<noteq> [] \<and> CHR ''-'' \<notin> set seg \<and> (rest = [] \<or> hd rest = CHR ''-'')"
      and "trim (p @ ''/'' @ seg @ rest @ ''\<newline>'') = p @ ''/'' @ seg @ rest"
    for p seg rest
    using scope_suggestion_from_branch [of p seg rest "p @ ''/'' @ seg @ rest @ ''\<newline>''"] that
    by blast
  have miss: "getScopeSuggestion (Some out) = ''''"
    if "\<not> (\<exists>q \<in> set [''feature'', ''feat'', ''fix'', ''docs'', ''style'', ''refactor'',
                        ''perf'', ''test'', ''build'', ''ci'', ''chore'', ''revert''].
            \<exists>c cs. trim out = q @ ''/'' @ c # cs \<and> c \<noteq> CHR ''-'')"
    for out
    using scope_suggestion_from_branch [of _ _ _ out] that by blast
  have t1: "trim ''main\<newline>'' = ''main''"
    and t2: "trim ''hotfix/auth-login\<newline>'' = ''hotfix/auth-login''"
    and t3: "trim ''fix/-auth\<newline>'' = ''fix/-auth''"
    by (simp_all add: trim_def isWhiteSpace_def)
  have m1: "getScopeSuggestion (Some ''main\<newline>'') = ''''"
    by (rule miss) (simp add: t1)
  have m2: "getScopeSuggestion (Some ''hotfix/auth-login\<newline>'') = ''''"
    by (rule miss) (simp add: t2)
  have m3: "getScopeSuggestion (Some ''fix/-auth\<newline>'') = ''''"
    by (rule miss) (simp add: t3)
  show ?thesis
    using hit [of "''feature''" "''auth''" "''-login''"] hit [of "''feat''" "''auth''" "''-login''"]
      hit [of "''fix''" "''auth''" "''-login''"] hit [of "''docs''" "''auth''" "''-login''"]
      hit [of "''style''" "''auth''" "''-login''"] hit [of "''refactor''" "''auth''" "''-login''"]
      hit [of "''perf''" "''auth''" "''-login''"] hit [of "''test''" "''auth''" "''-login''"]
      hit [of "''build''" "''auth''" "''-login''"] hit [of "''ci''" "''auth''" "''-login''"]
      hit [of "''chore''" "''auth''" "''-login''"] hit [of "''revert''" "''auth''" "''-login''"]
      hit [of "''fix''" "''login''" "''''"] m1 m2 m3
    by (simp add: trim_def isWhiteSpace_def)
qed

section \<open>Commit Composer: the message\<close>

text \<open>
  Claim C3, as stated: the breaking-change section appears exactly when the breaking
  description is non-empty. With the breaking question confirmed and the description
  left empty, the message has the section.
\<close>

theorem empty_breaking_description_has_section:
  "breakingBody \<lparr>type = ''feat'', useCommonScope = None, commonScope = None,
       customScope = None, subject = ''Add login flow'', body = '''', breaking = True,
       breakingBody = Some '''', issues = False, issuesBody = None\<rparr> = Some ''''
   \<and> commitMessage \<lparr>type = ''feat'', useCommonScope = None, commonScope = None,
       customScope = None, subject = ''Add login flow'', body = '''', breaking = True,
       breakingBody = Some '''', issues = False, issuesBody = None\<rparr> None
     = ''feat: Add login flow\<newline>\<newline>BREAKING CHANGE: Breaking changes introduced''"
  by (simp add: commitMessage_def scopeOf_def scopeText_def)

text \<open>
  Claim C3, amended: the message is the header line followed by the sections that are
  present, each after one empty line and nothing for a section that is absent. The body
  section is present exactly when the body is non-empty; the issues section exactly when
  the issues question was confirmed and the references are non-empty; the
  breaking-change section exactly when the breaking question was confirmed. The scope
  and its parentheses are left out exactly when the scope is absent or empty. The answers
  with type \<^verbatim>\<open>feat\<close>, scope \<^verbatim>\<open>auth\<close> and subject \<^verbatim>\<open>Add login flow\<close> only give the
  single line \<^verbatim>\<open>feat(auth): Add login flow\<close>.
\<close>

theorem message_sections:
  "commitMessage r otherScope =
     type r @ scopeText (scopeOf r otherScope) @ '': '' @ subject r
     @ (if body r \<noteq> [] then ''\<newline>\<newline>'' @ body r else '''')
     @ (if breaking r
        then ''\<newline>\<newline>BREAKING CHANGE: ''
             @ (if truthy (breakingBody r) then the (breakingBody r)
                else ''Breaking changes introduced'')
        else '''')
     @ (if issues r \<and> truthy (issuesBody r) then ''\<newline>\<newline>'' @ the (issuesBody r) else '''')
   \<and> scopeText scope = (if truthy scope then ''('' @ the scope @ '')'' else '''')
   \<and> commitMessage \<lparr>type = ''feat'', useCommonScope = Some True, commonScope = Some ''auth'',
         customScope = None, subject = ''Add login flow'', body = '''', breaking = False,
         breakingBody = None, issues = False, issuesBody = None\<rparr> None
       = ''feat(auth): Add login flow''"
proof -
  have "commitMessage r otherScope =
     type r @ scopeText (scopeOf r otherScope) @ '': '' @ subject r
     @ (if body r \<noteq> [] then ''\<newline>\<newline>'' @ body r else '''')
     @ (if breaking r
        then ''\<newline>\<newline>BREAKING CHANGE: ''
             @ (if truthy (breakingBody r) then the (breakingBody r)
                else ''Breaking changes introduced'')
        else '''')
     @ (if issues r \<and> truthy (issuesBody r) then ''\<newline>\<newline>'' @ the (issuesBody r) else '''')"
    by (simp add: commitMessage_def Let_def truthy_def split: option.splits)
  moreover have "scopeText scope = (if truthy scope then ''('' @ the scope @ '')'' else '''')"
    by (simp add: scopeText_def truthy_def split: option.splits)
  moreover have
    "commitMessage \<lparr>type = ''feat'', useCommonScope = Some True, commonScope = Some ''auth'',
         customScope = None, subject = ''Add login flow'', body = '''', breaking = False,
         breakingBody = None, issues = False, issuesBody = None\<rparr> None
       = ''feat(auth): Add login flow''"
    by (simp add: commitMessage_def scopeOf_def scopeText_def)
  ultimately show ?thesis by blast
qed

text \<open>
  The amended claim C3 on answers with a custom scope and all three sections.
\<close>

theorem message_sections_witness:
  "commitMessage \<lparr>type = ''fix'', useCommonScope = Some False, commonScope = None,
       customScope = Some ''api'', subject = ''Handle timeouts'', body = ''Retry twice'',
       breaking = True, breakingBody = Some ''Token format changed'', issues = True,
       issuesBody = Some ''Fixes #12''\<rparr> None
     = ''fix(api): Handle timeouts\<newline>\<newline>Retry twice\<newline>\<newline>BREAKING CHANGE: Token format changed\<newline>\<newline>Fixes #12''"
  using message_sections [of "\<lparr>type = ''fix'', useCommonScope = Some False, commonScope = None,
       customScope = Some ''api'', subject = ''Handle timeouts'', body = ''Retry twice'',
       breaking = True, breakingBody = Some ''Token format changed'', issues = True,
       issuesBody = Some ''Fixes #12''\<rparr>" None "Some ''api''"]
  by (simp add: scopeOf_def truthy_def)

text \<open>
  Claim C10, as stated: with the breaking question confirmed and the description empty,
  the default breaking-change text is the final section of the message. When issue
  references are given as well they follow it, and the message does not end with the
  breaking-change section.
\<close>

theorem default_breaking_section_not_final:
  "commitMessage \<lparr>type = ''feat'', useCommonScope = None, commonScope = None,
       customScope = None, subject = ''Add login flow'', body = '''', breaking = True,
       breakingBody = Some '''', issues = True, issuesBody = Some ''Fixes #123''\<rparr> None
     = ''feat: Add login flow\<newline>\<newline>BREAKING CHANGE: Breaking changes introduced\<newline>\<newline>Fixes #123''
   \<and> \<not> endsWith
         (commitMessage \<lparr>type = ''feat'', useCommonScope = None, commonScope = None,
            customScope = None, subject = ''Add login flow'', body = '''', breaking = True,
            breakingBody = Some '''', issues = True, issuesBody = Some ''Fixes #123''\<rparr> None)
         ''\<newline>\<newline>BREAKING CHANGE: Breaking changes introduced''"
  by (simp add: commitMessage_def scopeOf_def scopeText_def endsWith_def)

text \<open>
  Claim C10, amended: the breaking-change section is controlled by the confirmation, not
  by the description. Whenever the breaking question is confirmed and the description is
  empty or absent, the message is the header, the body section if there is one, the
  section \<^verbatim>\<open>BREAKING CHANGE: Breaking changes introduced\<close>, and the issues section if
  there is one; the default section is the final one when there is no issues section.
\<close>

theorem default_breaking_section:
  assumes "breaking r" and "\<not> truthy (breakingBody r)"
  shows "commitMessage r otherScope =
     type r @ scopeText (scopeOf r otherScope) @ '': '' @ subject r
     @ (if body r \<noteq> [] then ''\<newline>\<newline>'' @ body r else '''')
     @ ''\<newline>\<newline>BREAKING CHANGE: Breaking changes introduced''
     @ (if issues r \<and> truthy (issuesBody r) then ''\<newline>\<newline>'' @ the (issuesBody r) else '''')
   \<and> (\<not> (issues r \<and> truthy (issuesBody r))
        \<longrightarrow> endsWith (commitMessage r otherScope)
              ''\<newline>\<newline>BREAKING CHANGE: Breaking changes introduced'')"
proof -
  have eq: "commitMessage r otherScope =
     type r @ scopeText (scopeOf r otherScope) @ '': '' @ subject r
     @ (if body r \<noteq> [] then ''\<newline>\<newline>'' @ body r else '''')
     @ ''\<newline>\<newline>BREAKING CHANGE: Breaking changes introduced''
     @ (if issues r \<and> truthy (issuesBody r) then ''\<newline>\<newline>'' @ the (issuesBody r) else '''')"
    using assms by (simp add: commitMessage_def Let_def truthy_def split: option.splits)
  have "endsWith (commitMessage r otherScope)
          ''\<newline>\<newline>BREAKING CHANGE: Breaking changes introduced''"
    if "\<not> (issues r \<and> truthy (issuesBody r))"
  proof -
    from that eq have "commitMessage r otherScope =
        (type r @ scopeText (scopeOf r otherScope) @ '': '' @ subject r
         @ (if body r \<noteq> [] then ''\<newline>\<newline>'' @ body r else ''''))
        @ ''\<newline>\<newline>BREAKING CHANGE: Breaking changes introduced''"
      by simp
    then show ?thesis
      using endsWith_append by metis
  qed
  with eq show ?thesis by blast
qed

text \<open>
  The amended claim C10 on answers whose breaking description is empty and that have no
  issue references.
\<close>

theorem default_breaking_section_witness:
  "commitMessage \<lparr>type = ''feat'', useCommonScope = None, commonScope = None,
       customScope = None, subject = ''Add login flow'', body = ''Use tokens'',
       breaking = True, breakingBody = Some '''', issues = False, issuesBody = None\<rparr> None
     = ''feat: Add login flow\<newline>\<newline>Use tokens\<newline>\<newline>BREAKING CHANGE: Breaking changes introduced''
   \<and> endsWith
       (commitMessage \<lparr>type = ''feat'', useCommonScope = None, commonScope = None,
          customScope = None, subject = ''Add login flow'', body = ''Use tokens'',
          breaking = True, breakingBody = Some '''', issues = False, issuesBody = None\<rparr> None)
       ''\<newline>\<newline>BREAKING CHANGE: Breaking changes introduced''"
proof -
  let ?r = "\<lparr>type = ''feat'', useCommonScope = None, commonScope = None,
       customScope = None, subject = ''Add login flow'', body = ''Use tokens'',
       breaking = True, breakingBody = Some '''', issues = False, issuesBody = None\<rparr>"
  have h1: "breaking ?r" by simp
  have h2: "\<not> truthy (breakingBody ?r)" by (simp add: truthy_def)
  show ?thesis
    using default_breaking_section [OF h1 h2, of None]
    by (simp add: scopeOf_def scopeText_def endsWith_def)
qed

text \<open>
  Claim C6: when the list of staged files is empty the Commit Composer writes the
  warning about staged files and exits with code 1; no prompt is shown and no command
  is run, whatever the other inputs are.
\<close>

theorem no_staged_files_exit:
  assumes "getStagedFiles d = []"
  shows "exitCode (commitMain d b a os c k) = 1
     \<and> \<not> list_ex isPrompt (trace (commitMain d b a os c k))
     \<and> \<not> list_ex isCommand (trace (commitMain d b a os c k))
     \<and> Out ''No staged files found. Please stage your changes with:''
         \<in> set (trace (commitMain d b a os c k))"
  using assms by (simp add: commitMain_def Let_def isPrompt_def isCommand_def)

text \<open>
  Claim C6 on a run where \<^verbatim>\<open>git diff --cached --name-only\<close> prints nothing although
  the user would have answered and confirmed.
\<close>

theorem no_staged_files_exit_witness:
  "commitMain (Some '''') (Some ''main\<newline>'')
       (Some \<lparr>type = ''feat'', useCommonScope = None, commonScope = None,
          customScope = None, subject = ''Add login flow'', body = '''', breaking = False,
          breakingBody = None, issues = False, issuesBody = None\<rparr>)
       None (Some True) True
     = \<lparr>exitCode = 1,
        trace = [Out ''No staged files found. Please stage your changes with:'',
                 Out ''  git add <files>'']\<rparr>
   \<and> exitCode (commitMain (Some '''') (Some ''main\<newline>'')
       (Some \<lparr>type = ''feat'', useCommonScope = None, commonScope = None,
          customScope = None, subject = ''Add login flow'', body = '''', breaking = False,
          breakingBody = None, issues = False, issuesBody = None\<rparr>)
       None (Some True) True) = 1"
proof -
  have h: "getStagedFiles (Some '''') = []"
    by (simp add: getStagedFiles_def filterBoolean_def)
  show ?thesis
    using no_staged_files_exit [OF h]
    by (simp add: commitMain_def getStagedFiles_def filterBoolean_def)
qed

text \<open>
  For answers the prompt series can return, the references are there only when the
  issues question was confirmed, and a breaking description only when the breaking
  question was: the issues section then appears exactly when the references are
  non-empty, and a non-empty breaking description always has its section.
\<close>

lemma fromPrompts_sections:
  assumes "fromPrompts r"
  shows "(issues r \<and> truthy (issuesBody r)) = truthy (issuesBody r)"
    and "truthy (breakingBody r) \<Longrightarrow> breaking r"
  using assms by (auto simp add: fromPrompts_def truthy_def split: option.splits)

section \<open>Pusher\<close>

lemma isCommand_simps [simp]:
  "\<not> isCommand (Out s)" "\<not> isCommand (Ask s)" "isCommand (ExecSync s)" "isCommand (Spawn xs)"
  by (simp_all add: isCommand_def)

lemma no_command_map_Out [simp]: "\<not> list_ex isCommand (map (\<lambda>x. Out (f x)) xs)"
  by (induction xs) simp_all

lemma no_command_map_Out_indexed [simp]:
  "\<not> list_ex isCommand (map (\<lambda>(i, x). Out (f i x)) xs)"
  by (induction xs) auto

lemma no_command_map_Ask [simp]: "\<not> list_ex isCommand (map Ask xs)"
  by (induction xs) simp_all

lemma no_command_commitLines [simp]: "\<not> list_ex isCommand (commitLines xs)"
  by (auto simp add: commitLines_def list_ex_iff)

text \<open>
  Whether the handler opens with the success or the failure message depends on the exit
  code alone, and
  once the push process has been started the Pusher exits with code 0 whatever the exit
  code and the output of the process are.
\<close>

lemma onClose_by_exit_code:
  "(hd (onClose code output) = Out ''Push successful!'') = (code = 0)"
  "(hd (onClose code output) = Out ''Push failed!'') = (code \<noteq> 0)"
  by (simp_all add: onClose_def)



text \<open>
  Claim C2: success or failure of a push is decided by the exit code of the push
  process, and on a non-zero exit code the Pusher reports the failure, writes the raw
  output and ends with a non-zero exit code. The handler of the \<^verbatim>\<open>close\<close> event
  reports and writes the output but never sets an exit code: a push that fails with
  exit code 1 leaves the Pusher's own exit code at 0.
\<close>

theorem failed_push_exits_zero:
  "exitCode (pushMain (Some ''main\<newline>'') (Some ''origin\<newline>'')
        (Some \<lparr>remote = ''origin'', branch = ''main'', forcePush = False\<rparr>)
        (Some ''1a2b3c4 Add login flow\<newline>'') None (Some True)
        1 ''error: failed to push some refs'') = 0
   \<and> onClose 1 ''error: failed to push some refs''
       = [Out ''Push failed!'', Out ''error: failed to push some refs'',
          Out ''Try resolving the issues and pushing again.'']"
  by (simp add: pushMain_def executePush_def getCurrentBranch_def getUnpushedCommits_def
      onClose_def trim_def isWhiteSpace_def Let_def)

text \<open>
  Claim C8: when \<^verbatim>\<open>git log\<close> against the remote branch fails, as it does when the
  remote branch does not exist, the run takes the new-branch case: it says so, does not
  ask whether to continue without unpushed commits, and goes on to the push
  confirmation. When there are no unpushed commits, which excludes the new-branch case,
  the run asks whether to continue; it runs no command unless the answer is yes, and
  with any other answer it exits with code 0 before the push confirmation.
\<close>

theorem new_branch_and_no_unpushed_commits:
  assumes "getCurrentBranch bo = Some cb" and "cb \<noteq> []"
  shows "(lo = None \<longrightarrow>
           (let t = trace (pushMain bo ro (Some r) lo ca cp code output)
            in Out ''This appears to be a new branch on the remote'' \<in> set t
               \<and> Ask ''Continue with push anyway?'' \<notin> set t
               \<and> Ask (''Push '' @ cb @ '' to '' @ remote r @ ''/'' @ branch r @ ''?''
                       @ (if forcePush r then '' (FORCE PUSH)'' else '''')) \<in> set t))
       \<and> (getUnpushedCommits lo = [] \<longrightarrow>
           (let res = pushMain bo ro (Some r) lo ca cp code output
            in Ask ''Continue with push anyway?'' \<in> set (trace res)
               \<and> (mutates res \<longrightarrow> ca = Some True)
               \<and> (ca \<noteq> Some True \<longrightarrow>
                    exitCode res = 0
                    \<and> Ask (''Push '' @ cb @ '' to '' @ remote r @ ''/'' @ branch r @ ''?''
                            @ (if forcePush r then '' (FORCE PUSH)'' else ''''))
                        \<notin> set (trace res))))"
  using assms
  by (auto simp add: pushMain_def executePush_def getUnpushedCommits_def Let_def mutates_def
      onClose_def)

text \<open>
  Claim C8 on the branch \<^verbatim>\<open>feature/login\<close>: once with a failing \<^verbatim>\<open>git log\<close>, the
  new-branch case, and once with a \<^verbatim>\<open>git log\<close> that prints nothing and a user who
  declines to continue.
\<close>

theorem new_branch_and_no_unpushed_commits_witness:
  "Out ''This appears to be a new branch on the remote''
     \<in> set (trace (pushMain (Some ''feature/login\<newline>'') (Some ''origin\<newline>'')
          (Some \<lparr>remote = ''origin'', branch = ''feature/login'', forcePush = False\<rparr>)
          None None (Some True) 0 ''''))
   \<and> Ask ''Continue with push anyway?''
     \<notin> set (trace (pushMain (Some ''feature/login\<newline>'') (Some ''origin\<newline>'')
          (Some \<lparr>remote = ''origin'', branch = ''feature/login'', forcePush = False\<rparr>)
          None None (Some True) 0 ''''))
   \<and> Ask ''Continue with push anyway?''
     \<in> set (trace (pushMain (Some ''feature/login\<newline>'') (Some ''origin\<newline>'')
          (Some \<lparr>remote = ''origin'', branch = ''feature/login'', forcePush = False\<rparr>)
          (Some ''\<newline>'') (Some False) (Some True) 0 ''''))
   \<and> exitCode (pushMain (Some ''feature/login\<newline>'') (Some ''origin\<newline>'')
          (Some \<lparr>remote = ''origin'', branch = ''feature/login'', forcePush = False\<rparr>)
          (Some ''\<newline>'') (Some False) (Some True) 0 '''') = 0
   \<and> \<not> mutates (pushMain (Some ''feature/login\<newline>'') (Some ''origin\<newline>'')
          (Some \<lparr>remote = ''origin'', branch = ''feature/login'', forcePush = False\<rparr>)
          (Some ''\<newline>'') (Some False) (Some True) 0 '''')"
proof -
  have h1: "getCurrentBranch (Some ''feature/login\<newline>'') = Some ''feature/login''"
    by (simp add: getCurrentBranch_def trim_def isWhiteSpace_def)
  have h2: "''feature/login'' \<noteq> []"
    by simp
  have h3: "getUnpushedCommits (Some ''\<newline>'') = []"
    by (simp add: getUnpushedCommits_def trim_def isWhiteSpace_def)
  show ?thesis
    using
      new_branch_and_no_unpushed_commits [OF h1 h2, of None "Some ''origin\<newline>''"
        "\<lparr>remote = ''origin'', branch = ''feature/login'', forcePush = False\<rparr>"
        None "Some True" 0 "''''"]
      new_branch_and_no_unpushed_commits [OF h1 h2, of "Some ''\<newline>''" "Some ''origin\<newline>''"
        "\<lparr>remote = ''origin'', branch = ''feature/login'', forcePush = False\<rparr>"
        "Some False" "Some True" 0 "''''"]
      h3
    by (simp add: Let_def)
qed

section \<open>Cancelling and declining\<close>







text \<open>
  The Stager: the cancel signal at the selection prompts, the staging confirmation and
  the state where everything is staged.
\<close>

lemma no_commands_map_Out [simp]: "filter isCommand (map (\<lambda>x. Out (f x)) xs) = []"
  by (induction xs) simp_all

lemma no_commands_map_Out_indexed [simp]:
  "filter isCommand (map (\<lambda>(i, x). Out (f i x)) xs) = []"
  by (induction xs) auto



















end
